theory Spec2Isabelle
  imports Main "HOL-Library.Word"
begin

section \<open>Python values\<close>

text \<open>
  A Python \<open>str\<close> is a sequence of Unicode code points: \<open>len\<close> counts code points and
  \<open>strip\<close> removes the code points that \<open>str.isspace\<close> accepts. A string is therefore a list
  of code points; \<open>u\<close> turns an ASCII literal into one. \<open>bytes\<close> is a list of octets.
\<close>

type_synonym pystr = "nat list"

type_synonym bytes = "8 word list"

definition u :: "string \<Rightarrow> pystr" where
  "u s = map of_char s"

text \<open>
  The values that \<open>json.loads\<close> produces, which are also the values an invocation envelope
  can hold. A \<open>dict\<close> is an association list in insertion order (its keys are pairwise
  distinct in Python; \<open>map_of\<close> reads it). A \<open>float\<close> is its IEEE 754 binary64 bit pattern.
\<close>

datatype json =
    JNull
  | JBool bool
  | JInt int
  | JFloat "64 word"
  | JStr pystr
  | JArr "json list"
  | JObj "(pystr \<times> json) list"

text \<open>Truth value testing: \<open>None\<close>, \<open>False\<close>, zero (\<open>0\<close>, \<open>0.0\<close>, \<open>-0.0\<close>) and empty
  containers are false.\<close>

fun truthy :: "json \<Rightarrow> bool" where
  "truthy JNull = False"
| "truthy (JBool b) = b"
| "truthy (JInt n) = (n \<noteq> 0)"
| "truthy (JFloat w) = (take_bit 63 w \<noteq> 0)"
| "truthy (JStr s) = (s \<noteq> [])"
| "truthy (JArr xs) = (xs \<noteq> [])"
| "truthy (JObj kvs) = (kvs \<noteq> [])"

datatype py_error = AttributeError | TypeError | KeyError | IndexError

text \<open>\<open>x.get(k, dflt)\<close>: only a \<open>dict\<close> has the method.\<close>

fun py_get :: "json \<Rightarrow> pystr \<Rightarrow> json \<Rightarrow> py_error + json" where
  "py_get (JObj d) k dflt = Inr (case map_of d k of Some v \<Rightarrow> v | None \<Rightarrow> dflt)"
| "py_get _ k dflt = Inl AttributeError"

text \<open>\<open>x[k]\<close> for a string key \<open>k\<close>.\<close>

fun py_getitem :: "json \<Rightarrow> pystr \<Rightarrow> py_error + json" where
  "py_getitem (JObj d) k = (case map_of d k of Some v \<Rightarrow> Inr v | None \<Rightarrow> Inl KeyError)"
| "py_getitem _ k = Inl TypeError"

text \<open>\<open>x[0]\<close>: the first element of a list, the first character of a string; a \<open>dict\<close> whose
  keys are strings has no key \<open>0\<close>; the other values are not subscriptable.\<close>

fun py_index0 :: "json \<Rightarrow> py_error + json" where
  "py_index0 (JArr []) = Inl IndexError"
| "py_index0 (JArr (x # xs)) = Inr x"
| "py_index0 (JStr []) = Inl IndexError"
| "py_index0 (JStr (c # cs)) = Inr (JStr [c])"
| "py_index0 (JObj d) = Inl KeyError"
| "py_index0 _ = Inl TypeError"

text \<open>The code points for which \<open>str.isspace\<close> holds.\<close>

definition isspace :: "nat \<Rightarrow> bool" where
  "isspace c \<longleftrightarrow>
     (9 \<le> c \<and> c \<le> 13) \<or> (28 \<le> c \<and> c \<le> 32) \<or> c = 133 \<or> c = 160 \<or> c = 5760 \<or>
     (8192 \<le> c \<and> c \<le> 8202) \<or> c = 8232 \<or> c = 8233 \<or> c = 8239 \<or> c = 8287 \<or> c = 12288"

definition strip :: "pystr \<Rightarrow> pystr" where
  "strip s = rev (dropWhile isspace (rev (dropWhile isspace s)))"

text \<open>\<open>x.strip()\<close>: only a \<open>str\<close> has the method.\<close>

fun py_strip :: "json \<Rightarrow> py_error + pystr" where
  "py_strip (JStr s) = Inr (strip s)"
| "py_strip _ = Inl AttributeError"

section \<open>The standard library and the services\<close>

text \<open>
  The handler calls \<open>json\<close>, \<open>base64\<close> and \<open>bytes.decode\<close> of the standard library. Their code
  is not part of the repository, so they are parameters of the model; \<open>None\<close> stands for the
  exception the handler catches at that call (\<open>JSONDecodeError\<close> for \<open>json.loads\<close> of a
  string, any exception elsewhere). \<open>json.loads\<close> of a string is taken to raise nothing
  else, and \<open>json.dumps\<close> does not fail on the values above.
\<close>

record pylib =
  json_loads :: "pystr \<Rightarrow> json option"
  json_loads_bytes :: "bytes \<Rightarrow> json option"
  json_dumps :: "json \<Rightarrow> pystr"
  b64decode :: "pystr \<Rightarrow> bytes option"
  utf8_decode :: "bytes \<Rightarrow> pystr option"

section \<open>Input normalizer\<close>

definition parse_error :: "string \<Rightarrow> json" where
  "parse_error msg = JObj [(u ''__parse_error__'', JStr (u msg))]"

text \<open>\<open>_parse_event\<close>.\<close>

definition parse_event :: "pylib \<Rightarrow> json \<Rightarrow> json" where
  "parse_event L event =
     (case event of
        JObj ev \<Rightarrow>
          (case map_of ev (u ''body'') of
             Some body0 \<Rightarrow>
               (case (case body0 of
                        JStr s \<Rightarrow>
                          if truthy (case map_of ev (u ''isBase64Encoded'') of
                                       Some f \<Rightarrow> f | None \<Rightarrow> JNull)
                          then (case b64decode L s of
                                  None \<Rightarrow> None
                                | Some bs \<Rightarrow> map_option JStr (utf8_decode L bs))
                          else Some body0
                      | _ \<Rightarrow> Some body0) of
                  None \<Rightarrow> parse_error ''Invalid base64-encoded body''
                | Some (JStr s) \<Rightarrow>
                    (case json_loads L s of
                       Some v \<Rightarrow> v
                     | None \<Rightarrow> parse_error ''Invalid JSON in request body'')
                | Some (JObj d) \<Rightarrow> JObj d
                | Some _ \<Rightarrow> parse_error ''Unsupported body format'')
           | None \<Rightarrow> event)
      | _ \<Rightarrow> JObj [])"

section \<open>Configuration, services, clock and random source\<close>

text \<open>The module-level settings read from the environment at cold start.\<close>

record config =
  OUTPUT_BUCKET :: pystr
  MODEL_ID :: pystr
  KEY_PREFIX :: pystr

text \<open>
  What \<open>invoke_model\<close> can do: raise, return a response whose body cannot be read, or
  return a response whose body reads as the given bytes.
\<close>

datatype invoke_result = InvokeRaises | BodyUnreadable | Body bytes

record datetime =
  year :: nat
  month :: nat
  day :: nat
  hour :: nat
  minute :: nat
  second :: nat

text \<open>
  The outside world of one invocation: the model service (arguments \<open>modelId\<close>,
  \<open>contentType\<close>, \<open>accept\<close>, \<open>body\<close>), the storage service (\<open>put_object\<close> with \<open>Bucket\<close>,
  \<open>Key\<close>, \<open>Body\<close>, \<open>ContentType\<close>, where \<open>False\<close> is an exception; \<open>generate_presigned_url\<close>
  with \<open>ClientMethod\<close>, \<open>Bucket\<close>, \<open>Key\<close>, \<open>ExpiresIn\<close>, where \<open>None\<close> is an exception), the
  UTC clock and the integer of the random UUID.
\<close>

record world =
  invoke_model :: "pystr \<Rightarrow> pystr \<Rightarrow> pystr \<Rightarrow> pystr \<Rightarrow> invoke_result"
  put_object :: "pystr \<Rightarrow> pystr \<Rightarrow> bytes \<Rightarrow> pystr \<Rightarrow> bool"
  generate_presigned_url :: "pystr \<Rightarrow> pystr \<Rightarrow> pystr \<Rightarrow> nat \<Rightarrow> pystr option"
  utcnow :: datetime
  uuid4 :: "128 word"

text \<open>The calls to the services that an invocation makes, in order.\<close>

datatype call =
    InvokeModel pystr pystr pystr pystr
  | PutObject pystr pystr bytes pystr
  | GeneratePresignedUrl pystr pystr pystr nat

section \<open>Formatting the storage key\<close>

fun dec :: "nat \<Rightarrow> pystr" where
  "dec n = (if n < 10 then [48 + n] else dec (n div 10) @ [48 + n mod 10])"

declare dec.simps [simp del]

definition zfill :: "nat \<Rightarrow> pystr \<Rightarrow> pystr" where
  "zfill w s = replicate (w - length s) 48 @ s"

text \<open>\<open>strftime("%Y%m%d%H%M%S")\<close>. The year is padded to four digits, which is what the
  C library prints for the years from 1000 on.\<close>

definition strftime :: "datetime \<Rightarrow> pystr" where
  "strftime t =
     zfill 4 (dec (year t)) @ zfill 2 (dec (month t)) @ zfill 2 (dec (day t)) @
     zfill 2 (dec (hour t)) @ zfill 2 (dec (minute t)) @ zfill 2 (dec (second t))"

definition hexdigit :: "nat \<Rightarrow> nat" where
  "hexdigit n = (if n < 10 then 48 + n else 87 + n)"

text \<open>\<open>UUID.hex\<close>: the 128-bit integer as 32 lower-case hexadecimal digits.\<close>

definition hex :: "128 word \<Rightarrow> pystr" where
  "hex w = map (\<lambda>i. hexdigit (unat (take_bit 4 (drop_bit (4 * (31 - i)) w)))) [0..<32]"

definition storage_key :: "config \<Rightarrow> world \<Rightarrow> pystr" where
  "storage_key C W =
     KEY_PREFIX C @ u ''poster_'' @ strftime (utcnow W) @ u ''_'' @ take 10 (hex (uuid4 W)) @
     u ''.png''"

section \<open>The handler\<close>

record response =
  statusCode :: int
  headers :: "(pystr \<times> pystr) list"
  body :: pystr

text \<open>\<open>_resp\<close>.\<close>

definition resp :: "pylib \<Rightarrow> int \<Rightarrow> json \<Rightarrow> response" where
  "resp L status_code b =
     \<lparr>statusCode = status_code,
      headers = [(u ''Content-Type'', u ''application/json''),
                 (u ''Access-Control-Allow-Origin'', u ''*'')],
      body = json_dumps L b\<rparr>"

text \<open>The two headers every response carries, for stating what a run returns.\<close>

abbreviation json_headers :: "(pystr \<times> pystr) list" where
  "json_headers \<equiv> [(u ''Content-Type'', u ''application/json''),
                   (u ''Access-Control-Allow-Origin'', u ''*'')]"

definition err :: "string \<Rightarrow> json" where
  "err msg = JObj [(u ''error'', JStr (u msg))]"

definition missing_prompt :: string where
  "missing_prompt = ''Missing 'prompt'' @ [CHR 0x27]"

text \<open>\<open>base64.b64decode(images[0])\<close> inside its \<open>try\<close>: \<open>None\<close> when the subscript or the
  decoder raises; the decoder takes a string and rejects every other JSON value.\<close>

definition decode_image :: "pylib \<Rightarrow> json \<Rightarrow> bytes option" where
  "decode_image L images =
     (case py_index0 images of
        Inr (JStr s) \<Rightarrow> b64decode L s
      | _ \<Rightarrow> None)"

text \<open>
  The result of a run is the response, or the exception that leaves the handler, together
  with the calls made to the services. The body of \<open>lambda_handler\<close> is one sequence of
  steps; it is written here in three parts, cut where the handler passes from validating
  the request to calling the model, and from decoding the image to publishing it.
\<close>

type_synonym run = "(py_error + response) \<times> call list"

text \<open>\<open>lambda_handler\<close>, from building the storage key to the end: \<open>data\<close> is the parsed
  model response, \<open>img_bytes\<close> the decoded image, \<open>t1\<close> the calls made so far.\<close>

definition artifact_publisher ::
    "pylib \<Rightarrow> config \<Rightarrow> world \<Rightarrow> json \<Rightarrow> bytes \<Rightarrow> call list \<Rightarrow> run" where
  "artifact_publisher L C W data img_bytes t1 =
     (let key = storage_key C W;
          t2 = t1 @ [PutObject (OUTPUT_BUCKET C) key img_bytes (u ''image/png'')]
      in
      if \<not> put_object W (OUTPUT_BUCKET C) key img_bytes (u ''image/png'') then
        (Inr (resp L 502 (err ''S3 upload failed'')), t2)
      else
      (let t3 = t2 @ [GeneratePresignedUrl (u ''get_object'') (OUTPUT_BUCKET C) key 3600] in
      (case generate_presigned_url W (u ''get_object'') (OUTPUT_BUCKET C) key 3600 of
        None \<Rightarrow> (Inr (resp L 502 (err ''Failed to generate presigned URL'')), t3)
      | Some url \<Rightarrow>
      (case py_get data (u ''seeds'') JNull of
        Inl e \<Rightarrow> (Inl e, t3)
      | Inr seeds \<Rightarrow>
      (case py_index0 (if truthy seeds then seeds else JArr [JNull]) of
        Inl e \<Rightarrow> (Inl e, t3)
      | Inr seed \<Rightarrow>
          (Inr (resp L 200 (JObj [(u ''bucket'', JStr (OUTPUT_BUCKET C)),
                                  (u ''key'', JStr key),
                                  (u ''url'', JStr url),
                                  (u ''seed'', seed),
                                  (u ''modelId'', JStr (MODEL_ID C))])), t3))))))"

text \<open>\<open>lambda_handler\<close>, from the call of the model to the decoded image: \<open>prompt\<close> is the
  validated prompt.\<close>

definition generation_invoker :: "pylib \<Rightarrow> config \<Rightarrow> world \<Rightarrow> pystr \<Rightarrow> run" where
  "generation_invoker L C W prompt =
     (let request = json_dumps L (JObj [(u ''prompt'', JStr prompt),
                                        (u ''output_format'', JStr (u ''png''))]);
          t1 = [InvokeModel (MODEL_ID C) (u ''application/json'') (u ''application/json'')
                  request]
      in
      (case invoke_model W (MODEL_ID C) (u ''application/json'') (u ''application/json'')
              request of
        InvokeRaises \<Rightarrow> (Inr (resp L 502 (err ''Bedrock invoke failed'')), t1)
      | BodyUnreadable \<Rightarrow> (Inr (resp L 502 (err ''Invalid Bedrock response'')), t1)
      | Body raw \<Rightarrow>
      (case json_loads_bytes L raw of
        None \<Rightarrow> (Inr (resp L 502 (err ''Invalid Bedrock response'')), t1)
      | Some data \<Rightarrow>
      (case py_get data (u ''finish_reasons'') (JArr []) of
        Inl e \<Rightarrow> (Inl e, t1)
      | Inr finish_reasons \<Rightarrow>
      (case (if truthy finish_reasons
             then map_sum id (\<lambda>x. x \<noteq> JNull) (py_index0 finish_reasons)
             else Inr False) of
        Inl e \<Rightarrow> (Inl e, t1)
      | Inr filtered \<Rightarrow>
      if filtered then
        (Inr (resp L 400 (JObj [(u ''error'', JStr (u ''Filtered/failed'')),
                                (u ''finish_reasons'', finish_reasons)])), t1)
      else
      (case py_get data (u ''images'') JNull of
        Inl e \<Rightarrow> (Inl e, t1)
      | Inr imgs \<Rightarrow>
      (let images = (if truthy imgs then imgs else JArr []) in
      if \<not> truthy images then
        (Inr (resp L 502 (err ''No image returned from model'')), t1)
      else
      (case decode_image L images of
        None \<Rightarrow> (Inr (resp L 502 (err ''Image decode failed'')), t1)
      | Some img_bytes \<Rightarrow> artifact_publisher L C W data img_bytes t1))))))))"

text \<open>\<open>lambda_handler\<close> (its \<open>context\<close> argument is never read).\<close>

definition lambda_handler :: "pylib \<Rightarrow> config \<Rightarrow> world \<Rightarrow> json \<Rightarrow> run" where
  "lambda_handler L C W event =
     (let payload = parse_event L event in
      (case py_get payload (u ''__parse_error__'') JNull of
        Inl e \<Rightarrow> (Inl e, [])
      | Inr marker \<Rightarrow>
      if truthy marker then
        (case py_getitem payload (u ''__parse_error__'') of
           Inl e \<Rightarrow> (Inl e, [])
         | Inr msg \<Rightarrow> (Inr (resp L 400 (JObj [(u ''error'', msg)])), []))
      else
      (case py_get payload (u ''prompt'') JNull of
        Inl e \<Rightarrow> (Inl e, [])
      | Inr p \<Rightarrow>
      (case py_strip (if truthy p then p else JStr []) of
        Inl e \<Rightarrow> (Inl e, [])
      | Inr prompt \<Rightarrow>
      if prompt = [] then (Inr (resp L 400 (err missing_prompt)), [])
      else if length prompt > 800 then
        (Inr (resp L 400 (err ''Prompt too long (max 800 chars)'')), [])
      else generation_invoker L C W prompt))))"

section \<open>The normalizer as a tagged result\<close>

text \<open>
  The normalizer as the specification words it: the result is either the request, or an
  error with its message, instead of an error smuggled into a mapping. It is compared with
  \<open>parse_event\<close> below.
\<close>

definition normalize_spec :: "pylib \<Rightarrow> json \<Rightarrow> string + json" where
  "normalize_spec L envelope =
     (case envelope of
        JObj ev \<Rightarrow>
          (case map_of ev (u ''body'') of
             None \<Rightarrow> Inr envelope
           | Some (JStr s) \<Rightarrow>
               (if truthy (case map_of ev (u ''isBase64Encoded'') of
                             Some f \<Rightarrow> f | None \<Rightarrow> JNull)
                then (case b64decode L s of
                        None \<Rightarrow> Inl ''Invalid base64-encoded body''
                      | Some bs \<Rightarrow>
                          (case utf8_decode L bs of
                             None \<Rightarrow> Inl ''Invalid base64-encoded body''
                           | Some t \<Rightarrow>
                               (case json_loads L t of
                                  None \<Rightarrow> Inl ''Invalid JSON in request body''
                                | Some v \<Rightarrow> Inr v)))
                else (case json_loads L s of
                        None \<Rightarrow> Inl ''Invalid JSON in request body''
                      | Some v \<Rightarrow> Inr v))
           | Some (JObj d) \<Rightarrow> Inr (JObj d)
           | Some _ \<Rightarrow> Inl ''Unsupported body format'')
      | _ \<Rightarrow> Inr (JObj []))"

section \<open>Properties of keys and timestamps\<close>

definition is_digit :: "nat \<Rightarrow> bool" where
  "is_digit c \<longleftrightarrow> 48 \<le> c \<and> c \<le> 57"

definition is_hex :: "nat \<Rightarrow> bool" where
  "is_hex c \<longleftrightarrow> is_digit c \<or> (97 \<le> c \<and> c \<le> 102)"

text \<open>The characters of a base64 text: the alphabet of RFC 4648 and the padding sign.\<close>

definition base64_char :: "nat \<Rightarrow> bool" where
  "base64_char c \<longleftrightarrow>
     (65 \<le> c \<and> c \<le> 90) \<or> (97 \<le> c \<and> c \<le> 122) \<or> (48 \<le> c \<and> c \<le> 57) \<or>
     c = 43 \<or> c = 47 \<or> c = 61"

text \<open>The values a \<open>datetime\<close> can hold, with a year of four digits.\<close>

definition four_digit_datetime :: "datetime \<Rightarrow> bool" where
  "four_digit_datetime t \<longleftrightarrow>
     1000 \<le> year t \<and> year t \<le> 9999 \<and> 1 \<le> month t \<and> month t \<le> 12 \<and>
     1 \<le> day t \<and> day t \<le> 31 \<and> hour t < 24 \<and> minute t < 60 \<and> second t < 60"

section \<open>A concrete library and world\<close>

text \<open>
  To run the handler on concrete envelopes the parameters need values. The decoders of
  \<open>demo_lib\<close> are tables: on the inputs listed they return what CPython returns, and they
  report a failure on every other input; the only other inputs used below are the JSON
  texts \<open>e30=\<close> and the empty string, and the base64 text \<open>abc\<close>, on which CPython fails
  too. The base64 decoder is the one the handler calls, \<open>base64.b64decode\<close> without
  validation: it discards the characters outside the alphabet, so the text \<open>....\<close> decodes
  to no bytes, and a text decodes to the same bytes with or without a leading \<open>!\<close>.
  \<open>demo_dumps\<close> prints what \<open>json.dumps\<close> prints for a value that holds no float and whose
  strings are printable ASCII. \<open>demo_world\<close> is a world in which every service call
  succeeds.
\<close>

definition ascii :: "string \<Rightarrow> bytes" where
  "ascii s = map of_char s"

definition quoted :: "string \<Rightarrow> string" where
  "quoted s = CHR 0x22 # s @ [CHR 0x22]"

fun join :: "pystr \<Rightarrow> pystr list \<Rightarrow> pystr" where
  "join sep [] = []"
| "join sep [x] = x"
| "join sep (x # y # ys) = x @ sep @ join sep (y # ys)"

definition dumps_str :: "pystr \<Rightarrow> pystr" where
  "dumps_str s =
     34 # concat (map (\<lambda>c. if c = 34 \<or> c = 92 then [92, c] else [c]) s) @ [34]"

fun demo_dumps :: "json \<Rightarrow> pystr" where
  "demo_dumps JNull = u ''null''"
| "demo_dumps (JBool b) = (if b then u ''true'' else u ''false'')"
| "demo_dumps (JInt n) = (if n < 0 then 45 # dec (nat (- n)) else dec (nat n))"
| "demo_dumps (JFloat w) = u ''NaN''"
| "demo_dumps (JStr s) = dumps_str s"
| "demo_dumps (JArr xs) = 91 # join (u '', '') (map demo_dumps xs) @ [93]"
| "demo_dumps (JObj kvs) =
     123 # join (u '', '')
             (map (\<lambda>kv. dumps_str (fst kv) @ u '': '' @ demo_dumps (snd kv)) kvs) @ [125]"

definition request_text :: string where
  "request_text = ''{'' @ quoted ''prompt'' @ '': '' @ quoted ''a cat'' @ ''}''"

definition reply_ok :: string where
  "reply_ok = ''{'' @ quoted ''images'' @ '': ['' @ quoted ''QUJD'' @ ''], '' @
              quoted ''seeds'' @ '': [7]}''"

definition reply_filtered :: string where
  "reply_filtered = ''{'' @ quoted ''finish_reasons'' @ '': ['' @
                    quoted ''CONTENT_FILTERED'' @ '']}''"

definition reply_seeds_number :: string where
  "reply_seeds_number = ''{'' @ quoted ''images'' @ '': ['' @ quoted ''QUJD'' @ ''], '' @
                        quoted ''seeds'' @ '': 7}''"

definition demo_lib :: pylib where
  "demo_lib =
     \<lparr>json_loads = (\<lambda>s.
         if s = u ''{}'' then Some (JObj [])
         else if s = u ''[1]'' then Some (JArr [JInt 1])
         else if s = u request_text then Some (JObj [(u ''prompt'', JStr (u ''a cat''))])
         else None),
      json_loads_bytes = (\<lambda>b.
         if b = ascii reply_ok
         then Some (JObj [(u ''images'', JArr [JStr (u ''QUJD'')]),
                          (u ''seeds'', JArr [JInt 7])])
         else if b = ascii reply_filtered
         then Some (JObj [(u ''finish_reasons'', JArr [JStr (u ''CONTENT_FILTERED'')])])
         else if b = ascii reply_seeds_number
         then Some (JObj [(u ''images'', JArr [JStr (u ''QUJD'')]),
                          (u ''seeds'', JInt 7)])
         else None),
      json_dumps = demo_dumps,
      b64decode = (\<lambda>s.
         if s = u ''e30='' then Some (ascii ''{}'')
         else if s = u ''QUJD'' then Some (ascii ''ABC'')
         else if s = u ''eyJwcm9tcHQiOiAiYSBjYXQifQ=='' then Some (ascii request_text)
         else if s = u ''!eyJwcm9tcHQiOiAiYSBjYXQifQ=='' then Some (ascii request_text)
         else if s = u ''....'' then Some []
         else None),
      utf8_decode = (\<lambda>b.
         if b = ascii ''{}'' then Some (u ''{}'')
         else if b = ascii request_text then Some (u request_text)
         else if b = [] then Some []
         else None)\<rparr>"

definition demo_config :: config where
  "demo_config =
     \<lparr>OUTPUT_BUCKET = u ''posters'',
      MODEL_ID = u ''stability.sd3-5-large-v1:0'',
      KEY_PREFIX = u ''sd35/''\<rparr>"

definition demo_world :: world where
  "demo_world =
     \<lparr>invoke_model = (\<lambda>model_id content_type accept request. Body (ascii reply_ok)),
      put_object = (\<lambda>bucket key blob content_type. True),
      generate_presigned_url = (\<lambda>client_method bucket key expires_in.
         Some (u ''https://s3.example/'' @ bucket @ u ''/'' @ key)),
      utcnow = \<lparr>year = 2024, month = 1, day = 2, hour = 3, minute = 4, second = 5\<rparr>,
      uuid4 = 0x1b9d6bcdbbfd4b2d9b5dab8dfbbd4bed\<rparr>"

section \<open>Facts about strings\<close>

text \<open>Responses are compared field by field.\<close>

declare resp_def [simp]

lemma u_eq_iff [simp]: "u s = u t \<longleftrightarrow> s = t"
  unfolding u_def by (simp add: inj_map_eq_map inj_of_char)

lemma u_Nil [simp]: "u [] = []"
  by (simp add: u_def)

lemma u_eq_Nil_iff [simp]: "u s = [] \<longleftrightarrow> s = []"
  by (simp add: u_def)

lemma length_u [simp]: "length (u s) = length s"
  by (simp add: u_def)

lemma strip_Nil [simp]: "strip [] = []"
  by (simp add: strip_def)

lemma strip_no_space:
  assumes "s \<noteq> []" and "\<not> isspace (hd s)" and "\<not> isspace (last s)"
  shows "strip s = s"
proof -
  have "dropWhile isspace s = s"
    using assms by (simp add: dropWhile_eq_self_iff)
  moreover have "dropWhile isspace (rev s) = rev s"
    using assms by (simp add: dropWhile_eq_self_iff hd_rev)
  ultimately show ?thesis by (simp add: strip_def)
qed

lemma strip_replicate:
  "\<not> isspace c \<Longrightarrow> strip (replicate n c) = replicate n c"
proof -
  assume "\<not> isspace c"
  then have "dropWhile isspace (replicate n c) = replicate n c"
    by (cases n) simp_all
  then show ?thesis by (simp add: strip_def)
qed

lemma strip_eq_Nil_iff: "strip s = [] \<longleftrightarrow> list_all isspace s"
proof
  assume "list_all isspace s"
  then show "strip s = []"
    by (auto simp add: strip_def list_all_iff dest: set_dropWhileD)
next
  assume a: "strip s = []"
  show "list_all isspace s"
  proof (rule ccontr)
    assume "\<not> list_all isspace s"
    then have ne: "dropWhile isspace s \<noteq> []" by (simp add: list_all_iff)
    then have "\<not> isspace (hd (dropWhile isspace s))" by (rule hd_dropWhile)
    moreover have "hd (dropWhile isspace s) \<in> set (rev (dropWhile isspace s))"
      using ne by simp
    ultimately have "dropWhile isspace (rev (dropWhile isspace s)) \<noteq> []"
      by auto
    with a show False by (simp add: strip_def)
  qed
qed

section \<open>The storage key\<close>

lemma dec_digits: "list_all is_digit (dec n)"
proof (induction n rule: dec.induct)
  case (1 n)
  show ?case
  proof (cases "n < 10")
    case True
    then show ?thesis by (subst dec.simps) (simp add: is_digit_def)
  next
    case False
    with 1 have "list_all is_digit (dec (n div 10))" by simp
    moreover have "is_digit (48 + n mod 10)" by (simp add: is_digit_def)
    ultimately show ?thesis using False by (subst dec.simps) simp
  qed
qed

lemma length_dec_le: "n < 10 ^ k \<Longrightarrow> 0 < k \<Longrightarrow> length (dec n) \<le> k"
proof (induction k arbitrary: n)
  case 0
  then show ?case by simp
next
  case (Suc k)
  show ?case
  proof (cases "n < 10")
    case True
    then show ?thesis by (subst dec.simps) simp
  next
    case False
    with Suc.prems have k: "0 < k" by (cases k) auto
    from Suc.prems have "n div 10 < 10 ^ k" by (simp add: less_mult_imp_div_less mult.commute)
    with Suc.IH k have "length (dec (n div 10)) \<le> k" by simp
    with False show ?thesis by (subst dec.simps) simp
  qed
qed

lemma length_zfill: "length s \<le> w \<Longrightarrow> length (zfill w s) = w"
  by (simp add: zfill_def)

lemma zfill_digits: "list_all is_digit s \<Longrightarrow> list_all is_digit (zfill w s)"
  by (auto simp add: zfill_def is_digit_def list_all_iff)

lemma length_zfill_dec: "n < 10 ^ k \<Longrightarrow> 0 < k \<Longrightarrow> length (zfill k (dec n)) = k"
  by (simp add: length_zfill length_dec_le)

lemma length_strftime:
  assumes "four_digit_datetime t"
  shows "length (strftime t) = 14"
proof -
  from assms have "year t < 10 ^ 4" "month t < 10 ^ 2" "day t < 10 ^ 2"
    "hour t < 10 ^ 2" "minute t < 10 ^ 2" "second t < 10 ^ 2"
    by (simp_all add: four_digit_datetime_def)
  then show ?thesis
    by (simp add: strftime_def length_zfill_dec del: power_numeral)
qed

lemma strftime_digits: "list_all is_digit (strftime t)"
  by (simp add: strftime_def zfill_digits dec_digits)

lemma hexdigit_is_hex: "n < 16 \<Longrightarrow> is_hex (hexdigit n)"
  by (auto simp add: is_hex_def is_digit_def hexdigit_def)

lemma length_hex [simp]: "length (hex w) = 32"
  by (simp add: hex_def)

lemma hex_is_hex: "list_all is_hex (hex w)"
proof -
  have "unat (take_bit 4 x) < 16" for x :: "128 word"
    using take_bit_nat_less_exp [of 4 "unat x"] by (simp add: unsigned_take_bit_eq)
  then show ?thesis
    by (simp add: hex_def list_all_iff hexdigit_is_hex)
qed

lemma rid_format: "length (take 10 (hex w)) = 10 \<and> list_all is_hex (take 10 (hex w))"
  using hex_is_hex [of w] by (auto simp add: list_all_iff dest: in_set_takeD)

section \<open>The normalizer\<close>

text \<open>\<open>parse_event\<close> is the tagged normalizer with its error written into a mapping.\<close>

lemma parse_event_refines:
  "parse_event L e = (case normalize_spec L e of Inl msg \<Rightarrow> parse_error msg | Inr v \<Rightarrow> v)"
  by (simp add: parse_event_def normalize_spec_def
      split: json.splits option.splits)

text \<open>The marker check of the handler: a payload with a truthy \<open>__parse_error__\<close> field is
  answered with status 400 and that field as the error, before any service is called.\<close>

lemma handler_marker:
  assumes "parse_event L event = JObj m"
    and "map_of m (u ''__parse_error__'') = Some v" and "truthy v"
  shows "lambda_handler L C W event = (Inr \<lparr>statusCode = 400, headers = json_headers,
        body = json_dumps L (JObj [(u ''error'', v)])\<rparr>, [])"
  using assms by (simp add: lambda_handler_def)

text \<open>
  Claim C5. Normalization is transparent. Let \<open>m\<close> be a mapping without a \<open>body\<close> key whose
  serialization \<open>json.dumps(m)\<close> parses back to \<open>m\<close>, and let \<open>t\<close> be a base64 text that
  decodes to the UTF-8 bytes of that serialization. Then the envelope \<open>{"body": dumps(m)}\<close>
  normalizes to exactly \<open>m\<close>, as the direct envelope \<open>m\<close> does, and the envelope
  \<open>{"body": t, "isBase64Encoded": true}\<close> normalizes to the same value as
  \<open>{"body": dumps(m)}\<close>.
\<close>

theorem C5_normalization_transparent:
  assumes "map_of m (u ''body'') = None"
    and "json_loads L (json_dumps L (JObj m)) = Some (JObj m)"
    and "b64decode L t = Some bs"
    and "utf8_decode L bs = Some (json_dumps L (JObj m))"
  shows "parse_event L (JObj [(u ''body'', JStr (json_dumps L (JObj m)))]) = JObj m \<and>
         parse_event L (JObj m) = JObj m \<and>
         parse_event L (JObj [(u ''body'', JStr t), (u ''isBase64Encoded'', JBool True)]) =
           parse_event L (JObj [(u ''body'', JStr (json_dumps L (JObj m)))])"
  using assms by (simp add: parse_event_def)

text \<open>C5 at the mapping with the prompt \<open>a cat\<close>: \<open>json.dumps\<close> prints it as \<open>request_text\<close>,
  whose base64 text is \<open>eyJwcm9tcHQiOiAiYSBjYXQifQ==\<close>.\<close>

lemma demo_dumps_request:
  "demo_dumps (JObj [(u ''prompt'', JStr (u ''a cat''))]) = u request_text"
  by (simp add: dumps_str_def u_def request_text_def quoted_def)

theorem C5_normalization_transparent_witness:
  "parse_event demo_lib
     (JObj [(u ''body'',
             JStr (json_dumps demo_lib (JObj [(u ''prompt'', JStr (u ''a cat''))])))]) =
     JObj [(u ''prompt'', JStr (u ''a cat''))] \<and>
   parse_event demo_lib (JObj [(u ''prompt'', JStr (u ''a cat''))]) =
     JObj [(u ''prompt'', JStr (u ''a cat''))] \<and>
   parse_event demo_lib
     (JObj [(u ''body'', JStr (u ''eyJwcm9tcHQiOiAiYSBjYXQifQ=='')),
            (u ''isBase64Encoded'', JBool True)]) =
     parse_event demo_lib
       (JObj [(u ''body'',
               JStr (json_dumps demo_lib (JObj [(u ''prompt'', JStr (u ''a cat''))])))])"
proof (rule C5_normalization_transparent [where bs = "ascii request_text"])
  show "map_of [(u ''prompt'', JStr (u ''a cat''))] (u ''body'') = None"
    by simp
  have "request_text \<noteq> ''{}''" "request_text \<noteq> ''[1]''"
    by (simp_all add: request_text_def quoted_def)
  then show "json_loads demo_lib (json_dumps demo_lib (JObj [(u ''prompt'', JStr (u ''a cat''))])) =
      Some (JObj [(u ''prompt'', JStr (u ''a cat''))])"
    by (simp add: demo_lib_def demo_dumps_request del: demo_dumps.simps)
  show "b64decode demo_lib (u ''eyJwcm9tcHQiOiAiYSBjYXQifQ=='') = Some (ascii request_text)"
    by (simp add: demo_lib_def)
  have "ascii request_text \<noteq> ascii ''{}''"
    by (simp add: ascii_def request_text_def quoted_def)
  then show "utf8_decode demo_lib (ascii request_text) =
      Some (json_dumps demo_lib (JObj [(u ''prompt'', JStr (u ''a cat''))]))"
    by (simp add: demo_lib_def demo_dumps_request del: demo_dumps.simps)
qed

text \<open>
  Claim C10, as stated, fails: the \<open>isBase64Encoded\<close> field is a top-level field other than
  \<open>body\<close>, and it is read. The two envelopes below have the same \<open>body\<close>, the text \<open>e30=\<close>;
  with the flag it is decoded to \<open>{}\<close> and normalizes to the empty mapping, without the
  flag it is not JSON and normalizes to the error marker.
\<close>

theorem C10_counterexample:
  "parse_event demo_lib
     (JObj [(u ''body'', JStr (u ''e30='')), (u ''isBase64Encoded'', JBool True)]) \<noteq>
   parse_event demo_lib (JObj [(u ''body'', JStr (u ''e30=''))])"
  by (simp add: parse_event_def demo_lib_def parse_error_def ascii_def)

text \<open>
  Claim C10, amended. For a mapping envelope that contains a \<open>body\<close> key, the normalized
  request is derived from the body value and the truth value of \<open>isBase64Encoded\<close> only:
  two envelopes that agree on these normalize to the same value, whatever their other
  top-level fields, a top-level \<open>prompt\<close> included.
\<close>

theorem C10_body_only:
  assumes "map_of ev (u ''body'') = Some b" and "map_of ev' (u ''body'') = Some b"
    and "truthy (case map_of ev (u ''isBase64Encoded'') of Some f \<Rightarrow> f | None \<Rightarrow> JNull) =
         truthy (case map_of ev' (u ''isBase64Encoded'') of Some f \<Rightarrow> f | None \<Rightarrow> JNull)"
  shows "parse_event L (JObj ev) = parse_event L (JObj ev')"
  using assms by (cases b) (simp_all add: parse_event_def)

text \<open>C10 at an envelope with a top-level \<open>prompt\<close> beside the body \<open>{}\<close>.\<close>

theorem C10_body_only_witness:
  "parse_event demo_lib
     (JObj [(u ''prompt'', JStr (u ''a cat'')), (u ''body'', JStr (u ''{}''))]) =
   parse_event demo_lib (JObj [(u ''body'', JStr (u ''{}''))])"
  by (rule C10_body_only [where b = "JStr (u ''{}'')"]) simp_all

section \<open>Request validation\<close>

text \<open>A payload that passes the marker check with a prompt of 1 to 800 characters after
  trimming is handed to the model stage with the trimmed prompt.\<close>

lemma handler_valid:
  assumes "parse_event L event = JObj m"
    and "\<not> truthy (case map_of m (u ''__parse_error__'') of Some v \<Rightarrow> v | None \<Rightarrow> JNull)"
    and "map_of m (u ''prompt'') = Some (JStr s)"
    and "strip s \<noteq> []" and "length (strip s) \<le> 800"
  shows "lambda_handler L C W event = generation_invoker L C W (strip s)"
proof -
  from assms(4) have "s \<noteq> []" by auto
  then show ?thesis
    unfolding lambda_handler_def Let_def
    using assms
    by (simp split del: if_split)
qed

lemma handler_too_long:
  assumes "parse_event L event = JObj m"
    and "\<not> truthy (case map_of m (u ''__parse_error__'') of Some v \<Rightarrow> v | None \<Rightarrow> JNull)"
    and "map_of m (u ''prompt'') = Some (JStr s)"
    and "800 < length (strip s)"
  shows "lambda_handler L C W event =
           (Inr \<lparr>statusCode = 400, headers = json_headers,
                 body = json_dumps L (err ''Prompt too long (max 800 chars)'')\<rparr>, [])"
proof -
  from assms(4) have "strip s \<noteq> []" by auto
  then have "s \<noteq> []" by auto
  then show ?thesis
    unfolding lambda_handler_def Let_def
    using assms \<open>strip s \<noteq> []\<close>
    by (simp split del: if_split)
qed

text \<open>A payload that passes the marker check with a missing prompt, a string prompt that
  is empty after trimming, or a falsy prompt of another type is rejected.\<close>

lemma handler_missing_prompt:
  assumes "parse_event L event = JObj m"
    and "\<not> truthy (case map_of m (u ''__parse_error__'') of Some v \<Rightarrow> v | None \<Rightarrow> JNull)"
    and "(case map_of m (u ''prompt'') of
            None \<Rightarrow> True
          | Some (JStr s) \<Rightarrow> strip s = []
          | Some v \<Rightarrow> \<not> truthy v)"
  shows "lambda_handler L C W event = (Inr \<lparr>statusCode = 400, headers = json_headers,
        body = json_dumps L (err missing_prompt)\<rparr>, [])"
  using assms
  by (simp add: lambda_handler_def split: option.splits json.splits)

lemma non_mapping_envelope:
  assumes "\<And>ev. event \<noteq> JObj ev"
  shows "lambda_handler L C W event = (Inr \<lparr>statusCode = 400, headers = json_headers,
        body = json_dumps L (err missing_prompt)\<rparr>, [])"
proof -
  have "parse_event L event = JObj []"
    using assms by (cases event) (auto simp add: parse_event_def)
  then show ?thesis
    by (rule handler_missing_prompt) simp_all
qed

lemma handler_after_marker:
  assumes "parse_event L e = JObj m"
    and "\<not> truthy (case map_of m (u ''__parse_error__'') of Some v \<Rightarrow> v | None \<Rightarrow> JNull)"
  shows "lambda_handler L C W e = (Inl AttributeError, []) \<or>
         lambda_handler L C W e = (Inr \<lparr>statusCode = 400, headers = json_headers,
               body = json_dumps L (err missing_prompt)\<rparr>, []) \<or>
         lambda_handler L C W e =
           (Inr \<lparr>statusCode = 400, headers = json_headers,
                 body = json_dumps L (err ''Prompt too long (max 800 chars)'')\<rparr>, []) \<or>
         (\<exists>p. p \<noteq> [] \<and> length p \<le> 800 \<and>
              lambda_handler L C W e = generation_invoker L C W p)"
proof (cases "py_strip (if truthy (case map_of m (u ''prompt'') of Some v \<Rightarrow> v | None \<Rightarrow> JNull)
                        then (case map_of m (u ''prompt'') of Some v \<Rightarrow> v | None \<Rightarrow> JNull)
                        else JStr [])")
  case (Inl x)
  have "x = AttributeError"
    using Inl by (cases "(if truthy (case map_of m (u ''prompt'') of Some v \<Rightarrow> v | None \<Rightarrow> JNull)
                        then (case map_of m (u ''prompt'') of Some v \<Rightarrow> v | None \<Rightarrow> JNull)
                        else JStr [])") simp_all
  with Inl assms show ?thesis by (simp add: lambda_handler_def)
next
  case (Inr p)
  with assms show ?thesis by (auto simp add: lambda_handler_def)
qed

section \<open>The calls of a run\<close>

lemma publisher_trace:
  "\<exists>rest. snd (artifact_publisher L C W d b t) =
     t @ PutObject (OUTPUT_BUCKET C) (storage_key C W) b (u ''image/png'') # rest"
  by (simp add: artifact_publisher_def Let_def split: sum.split option.split)

lemma invoker_trace:
  "\<exists>rest. snd (generation_invoker L C W p) =
           InvokeModel (MODEL_ID C) (u ''application/json'') (u ''application/json'')
             (json_dumps L (JObj [(u ''prompt'', JStr p),
                                  (u ''output_format'', JStr (u ''png''))])) # rest"
proof -
  have "\<exists>rest. snd (artifact_publisher L C W d b [c]) = c # rest" for d b c
    using publisher_trace [of L C W d b "[c]"] by auto
  then show ?thesis
    by (auto simp add: generation_invoker_def Let_def
        split: sum.split option.split invoke_result.split)
qed

lemma handler_cases:
  "snd (lambda_handler L C W e) = [] \<or>
   (\<exists>p. p \<noteq> [] \<and> length p \<le> 800 \<and> lambda_handler L C W e = generation_invoker L C W p)"
  by (auto simp add: lambda_handler_def Let_def split: sum.split)

section \<open>Validation claims\<close>

text \<open>
  Claim C1 fails on the code. When \<open>body\<close> is a JSON text of an array, \<open>json.loads\<close> returns
  a list, \<open>_parse_event\<close> returns it as the payload, and \<open>payload.get\<close> raises
  \<open>AttributeError\<close>, which nothing catches: the handler returns no response. The same
  happens for a prompt that is a truthy value other than a string, such as \<open>5\<close>:
  \<open>(payload.get("prompt") or "")\<close> is \<open>5\<close>, which has no \<open>strip\<close>.
\<close>

theorem C1_unhandled_exceptions:
  "(json_loads L s = Some (JArr xs) \<longrightarrow>
      lambda_handler L C W (JObj [(u ''body'', JStr s)]) = (Inl AttributeError, [])) \<and>
   lambda_handler L C W (JObj [(u ''prompt'', JInt 5)]) = (Inl AttributeError, [])"
  by (simp add: lambda_handler_def parse_event_def)

text \<open>C1 at the envelope whose body is the text \<open>[1]\<close>.\<close>

theorem C1_unhandled_exceptions_witness:
  "lambda_handler demo_lib demo_config demo_world (JObj [(u ''body'', JStr (u ''[1]''))]) =
     (Inl AttributeError, [])"
  using C1_unhandled_exceptions [of demo_lib "u ''[1]''" "[JInt 1]" demo_config demo_world]
  by (simp add: demo_lib_def)

text \<open>
  Claim C4, as stated, fails: a payload whose \<open>__parse_error__\<close> field is truthy is
  answered by the marker check, before the prompt is read. The direct envelope below has
  no prompt; the handler answers it with status 400 and the envelope's own
  \<open>__parse_error__\<close> value, which is another response than the 400 for a missing prompt.
\<close>

theorem C4_counterexample:
  "lambda_handler demo_lib demo_config demo_world
     (JObj [(u ''__parse_error__'', JStr (u ''x''))]) =
     (Inr \<lparr>statusCode = 400, headers = json_headers,
           body = json_dumps demo_lib (JObj [(u ''error'', JStr (u ''x''))])\<rparr>, []) \<and>
   \<lparr>statusCode = 400, headers = json_headers,
         body = json_dumps demo_lib (JObj [(u ''error'', JStr (u ''x''))])\<rparr> \<noteq>
     \<lparr>statusCode = 400, headers = json_headers,
           body = json_dumps demo_lib (err missing_prompt)\<rparr>"
proof -
  have "dumps_str (u ''x'') \<noteq> dumps_str (u missing_prompt)"
    by (simp add: dumps_str_def u_def missing_prompt_def)
  then have "\<lparr>statusCode = 400, headers = json_headers,
        body = json_dumps demo_lib (JObj [(u ''error'', JStr (u ''x''))])\<rparr> \<noteq>
     \<lparr>statusCode = 400, headers = json_headers,
           body = json_dumps demo_lib (err missing_prompt)\<rparr>"
    by (simp add: resp_def demo_lib_def err_def)
  moreover have "lambda_handler demo_lib demo_config demo_world
     (JObj [(u ''__parse_error__'', JStr (u ''x''))]) =
     (Inr \<lparr>statusCode = 400, headers = json_headers,
           body = json_dumps demo_lib (JObj [(u ''error'', JStr (u ''x''))])\<rparr>, [])"
    by (rule handler_marker [where m = "[(u ''__parse_error__'', JStr (u ''x''))]"])
       (simp_all add: parse_event_def)
  ultimately show ?thesis by simp
qed

text \<open>
  Claim C4, amended. For every envelope whose normalized payload is a mapping with an
  absent or falsy \<open>__parse_error__\<close> field and a \<open>prompt\<close> field that is missing, falsy, or a
  string that is empty or all whitespace, the handler returns status 400 with the error
  "Missing 'prompt'" and calls no service; this includes every envelope that is not a
  mapping, which normalizes to the empty mapping. (A truthy prompt that is not a string
  is left out here: see C1.)
\<close>

theorem C4_missing_prompt:
  "(parse_event L event = JObj m \<and>
    \<not> truthy (case map_of m (u ''__parse_error__'') of Some v \<Rightarrow> v | None \<Rightarrow> JNull) \<and>
    (case map_of m (u ''prompt'') of
       None \<Rightarrow> True
     | Some (JStr s) \<Rightarrow> list_all isspace s
     | Some v \<Rightarrow> \<not> truthy v) \<longrightarrow>
      lambda_handler L C W event = (Inr \<lparr>statusCode = 400, headers = json_headers,
            body = json_dumps L (err missing_prompt)\<rparr>, [])) \<and>
   ((\<forall>ev. event \<noteq> JObj ev) \<longrightarrow>
      parse_event L event = JObj [] \<and>
      lambda_handler L C W event = (Inr \<lparr>statusCode = 400, headers = json_headers,
            body = json_dumps L (err missing_prompt)\<rparr>, []))"
proof (intro conjI impI)
  assume a: "parse_event L event = JObj m \<and>
    \<not> truthy (case map_of m (u ''__parse_error__'') of Some v \<Rightarrow> v | None \<Rightarrow> JNull) \<and>
    (case map_of m (u ''prompt'') of
       None \<Rightarrow> True
     | Some (JStr s) \<Rightarrow> list_all isspace s
     | Some v \<Rightarrow> \<not> truthy v)"
  then have "(case map_of m (u ''prompt'') of
       None \<Rightarrow> True
     | Some (JStr s) \<Rightarrow> strip s = []
     | Some v \<Rightarrow> \<not> truthy v)"
    by (simp add: strip_eq_Nil_iff split: option.splits json.splits)
  with a show "lambda_handler L C W event = (Inr \<lparr>statusCode = 400, headers = json_headers,
        body = json_dumps L (err missing_prompt)\<rparr>, [])"
    by (intro handler_missing_prompt [where m = m]) simp_all
next
  assume "\<forall>ev. event \<noteq> JObj ev"
  then show "parse_event L event = JObj []"
    by (cases event) (auto simp add: parse_event_def)
next
  assume "\<forall>ev. event \<noteq> JObj ev"
  then show "lambda_handler L C W event = (Inr \<lparr>statusCode = 400, headers = json_headers,
        body = json_dumps L (err missing_prompt)\<rparr>, [])"
    by (intro non_mapping_envelope) simp
qed

text \<open>C4 at the direct envelope whose prompt is three spaces, and at the envelope that is
  the JSON string \<open>a cat\<close>.\<close>

theorem C4_missing_prompt_witness:
  "lambda_handler demo_lib demo_config demo_world (JObj [(u ''prompt'', JStr (u ''   ''))]) =
     (Inr \<lparr>statusCode = 400, headers = json_headers,
           body = json_dumps demo_lib (err missing_prompt)\<rparr>, []) \<and>
   lambda_handler demo_lib demo_config demo_world (JStr (u ''a cat'')) =
     (Inr \<lparr>statusCode = 400, headers = json_headers,
           body = json_dumps demo_lib (err missing_prompt)\<rparr>, [])"
proof -
  have "lambda_handler demo_lib demo_config demo_world
          (JObj [(u ''prompt'', JStr (u ''   ''))]) =
        (Inr \<lparr>statusCode = 400, headers = json_headers,
              body = json_dumps demo_lib (err missing_prompt)\<rparr>, [])"
    by (rule C4_missing_prompt [THEN conjunct1, rule_format,
          where m = "[(u ''prompt'', JStr (u ''   ''))]"])
       (simp add: parse_event_def u_def isspace_def)
  moreover have "lambda_handler demo_lib demo_config demo_world (JStr (u ''a cat'')) =
        (Inr \<lparr>statusCode = 400, headers = json_headers,
              body = json_dumps demo_lib (err missing_prompt)\<rparr>, [])"
    using C4_missing_prompt [THEN conjunct2, rule_format, of "JStr (u ''a cat'')"]
    by simp
  ultimately show ?thesis by (rule conjI)
qed

text \<open>
  Claim C3, as stated, fails: a payload whose \<open>__parse_error__\<close> field is truthy never
  reaches the length check. The payload below has a prompt of exactly 800 characters (800
  times the letter a) and is answered with status 400 and its own \<open>__parse_error__\<close> value,
  without any call to the model.
\<close>

theorem C3_counterexample:
  "length (strip (replicate 800 97)) = 800 \<and>
   lambda_handler demo_lib demo_config demo_world
     (JObj [(u ''__parse_error__'', JStr (u ''x'')), (u ''prompt'', JStr (replicate 800 97))]) =
   (Inr \<lparr>statusCode = 400, headers = json_headers,
         body = json_dumps demo_lib (JObj [(u ''error'', JStr (u ''x''))])\<rparr>, [])"
proof -
  have "\<not> isspace 97" by (simp add: isspace_def)
  then have "length (strip (replicate 800 97)) = 800"
    by (simp add: strip_replicate)
  moreover have "lambda_handler demo_lib demo_config demo_world
     (JObj [(u ''__parse_error__'', JStr (u ''x'')), (u ''prompt'', JStr (replicate 800 97))]) =
   (Inr \<lparr>statusCode = 400, headers = json_headers,
         body = json_dumps demo_lib (JObj [(u ''error'', JStr (u ''x''))])\<rparr>, [])"
    by (rule handler_marker [where m = "[(u ''__parse_error__'', JStr (u ''x'')), (u ''prompt'', JStr (replicate 800 97))]"])
       (simp_all add: parse_event_def)
  ultimately show ?thesis by simp
qed

text \<open>
  Claim C3, amended. For every normalized payload that is a mapping whose \<open>__parse_error__\<close>
  field is absent or falsy and whose \<open>prompt\<close> is a string: if the prompt after trimming
  has exactly 800 characters, the handler invokes the model with the trimmed prompt; if
  it has 801 or more characters, the handler returns status 400 with the error
  "Prompt too long (max 800 chars)" and calls no service.
\<close>

theorem C3_prompt_length_boundary:
  assumes "parse_event L event = JObj m"
    and "\<not> truthy (case map_of m (u ''__parse_error__'') of Some v \<Rightarrow> v | None \<Rightarrow> JNull)"
    and "map_of m (u ''prompt'') = Some (JStr s)"
  shows "(length (strip s) = 800 \<longrightarrow>
            InvokeModel (MODEL_ID C) (u ''application/json'') (u ''application/json'')
              (json_dumps L (JObj [(u ''prompt'', JStr (strip s)),
                                   (u ''output_format'', JStr (u ''png''))]))
            \<in> set (snd (lambda_handler L C W event))) \<and>
         (801 \<le> length (strip s) \<longrightarrow>
            lambda_handler L C W event =
              (Inr \<lparr>statusCode = 400, headers = json_headers,
                    body = json_dumps L (err ''Prompt too long (max 800 chars)'')\<rparr>, []))"
proof (intro conjI impI)
  assume len: "length (strip s) = 800"
  then have "strip s \<noteq> []" by auto
  with assms len have "lambda_handler L C W event = generation_invoker L C W (strip s)"
    by (simp add: handler_valid)
  then show "InvokeModel (MODEL_ID C) (u ''application/json'') (u ''application/json'')
              (json_dumps L (JObj [(u ''prompt'', JStr (strip s)),
                                   (u ''output_format'', JStr (u ''png''))]))
            \<in> set (snd (lambda_handler L C W event))"
    using invoker_trace [of L C W "strip s"] by auto
next
  assume "801 \<le> length (strip s)"
  with assms show "lambda_handler L C W event =
              (Inr \<lparr>statusCode = 400, headers = json_headers,
                    body = json_dumps L (err ''Prompt too long (max 800 chars)'')\<rparr>, [])"
    by (simp add: handler_too_long)
qed

text \<open>C3 at the direct envelopes whose prompt is 800, and 801, times the letter a.\<close>

theorem C3_prompt_length_boundary_witness:
  "InvokeModel (MODEL_ID demo_config) (u ''application/json'') (u ''application/json'')
     (json_dumps demo_lib (JObj [(u ''prompt'', JStr (replicate 800 97)),
                                 (u ''output_format'', JStr (u ''png''))]))
     \<in> set (snd (lambda_handler demo_lib demo_config demo_world
                   (JObj [(u ''prompt'', JStr (replicate 800 97))]))) \<and>
   lambda_handler demo_lib demo_config demo_world
     (JObj [(u ''prompt'', JStr (replicate 801 97))]) =
   (Inr \<lparr>statusCode = 400, headers = json_headers,
         body = json_dumps demo_lib (err ''Prompt too long (max 800 chars)'')\<rparr>, [])"
proof -
  have sp: "\<not> isspace 97" by (simp add: isspace_def)
  have a: "parse_event demo_lib (JObj [(u ''prompt'', JStr (replicate n 97))]) =
        JObj [(u ''prompt'', JStr (replicate n 97))]" for n
    by (simp add: parse_event_def)
  show ?thesis
    using C3_prompt_length_boundary [OF a, of 800 "replicate 800 97" demo_config demo_world]
      C3_prompt_length_boundary [OF a, of 801 "replicate 801 97" demo_config demo_world] sp
    by (simp add: strip_replicate)
qed

section \<open>The error marker\<close>

lemma normalize_spec_messages:
  "normalize_spec L e = Inl msg \<Longrightarrow>
     msg = ''Invalid base64-encoded body'' \<or> msg = ''Invalid JSON in request body'' \<or>
     msg = ''Unsupported body format''"
  by (auto simp add: normalize_spec_def split: json.splits option.splits if_splits)

text \<open>
  Claim C9, as stated, fails: the marker is an ordinary field of the payload. The direct
  envelope below normalizes without error to itself, and has a valid prompt; the handler
  answers it with status 400 and the envelope's own \<open>__parse_error__\<close> value, and calls
  no service.
\<close>

theorem C9_counterexample:
  "normalize_spec demo_lib
     (JObj [(u ''__parse_error__'', JStr (u ''boom'')), (u ''prompt'', JStr (u ''a cat''))]) =
     Inr (JObj [(u ''__parse_error__'', JStr (u ''boom'')), (u ''prompt'', JStr (u ''a cat''))]) \<and>
   lambda_handler demo_lib demo_config demo_world
     (JObj [(u ''__parse_error__'', JStr (u ''boom'')), (u ''prompt'', JStr (u ''a cat''))]) =
     (Inr \<lparr>statusCode = 400, headers = json_headers,
           body = json_dumps demo_lib (err ''boom'')\<rparr>, [])"
  by (simp add: normalize_spec_def lambda_handler_def parse_event_def err_def)

text \<open>
  Claim C9, amended. Whenever normalization fails with a message, the handler returns the
  400 response carrying that message and calls no service. When normalization succeeds
  with a mapping, the handler returns a 400 response of the same shape, carrying the
  value of the mapping's own \<open>__parse_error__\<close> field, whenever that field is truthy;
  when the field is absent or falsy, the handler goes on to prompt validation: it raises
  on a prompt that cannot be trimmed, rejects a missing or too long prompt with the
  validator's own message, or hands a valid prompt to the model stage.
\<close>

theorem C9_marker_check:
  "(normalize_spec L e = Inl msg \<longrightarrow>
      lambda_handler L C W e = (Inr \<lparr>statusCode = 400, headers = json_headers,
            body = json_dumps L (err msg)\<rparr>, [])) \<and>
   (normalize_spec L e = Inr (JObj m) \<and> map_of m (u ''__parse_error__'') = Some v \<and> truthy v \<longrightarrow>
      lambda_handler L C W e = (Inr \<lparr>statusCode = 400, headers = json_headers,
            body = json_dumps L (JObj [(u ''error'', v)])\<rparr>, [])) \<and>
   (normalize_spec L e = Inr (JObj m) \<and>
    \<not> truthy (case map_of m (u ''__parse_error__'') of Some v \<Rightarrow> v | None \<Rightarrow> JNull) \<longrightarrow>
      lambda_handler L C W e = (Inl AttributeError, []) \<or>
      lambda_handler L C W e = (Inr \<lparr>statusCode = 400, headers = json_headers,
            body = json_dumps L (err missing_prompt)\<rparr>, []) \<or>
      lambda_handler L C W e =
        (Inr \<lparr>statusCode = 400, headers = json_headers,
              body = json_dumps L (err ''Prompt too long (max 800 chars)'')\<rparr>, []) \<or>
      (\<exists>p. p \<noteq> [] \<and> length p \<le> 800 \<and>
           lambda_handler L C W e = generation_invoker L C W p))"
proof (intro conjI impI)
  assume n: "normalize_spec L e = Inl msg"
  then have "msg \<noteq> []" using normalize_spec_messages [OF n] by auto
  moreover from n have "parse_event L e = parse_error msg"
    by (simp add: parse_event_refines)
  ultimately show "lambda_handler L C W e = (Inr \<lparr>statusCode = 400, headers = json_headers,
        body = json_dumps L (err msg)\<rparr>, [])"
    by (simp add: handler_marker parse_error_def err_def)
next
  assume "normalize_spec L e = Inr (JObj m) \<and> map_of m (u ''__parse_error__'') = Some v \<and> truthy v"
  then show "lambda_handler L C W e = (Inr \<lparr>statusCode = 400, headers = json_headers,
        body = json_dumps L (JObj [(u ''error'', v)])\<rparr>, [])"
    by (simp add: handler_marker parse_event_refines)
next
  assume "normalize_spec L e = Inr (JObj m) \<and>
    \<not> truthy (case map_of m (u ''__parse_error__'') of Some v \<Rightarrow> v | None \<Rightarrow> JNull)"
  then show "lambda_handler L C W e = (Inl AttributeError, []) \<or>
      lambda_handler L C W e = (Inr \<lparr>statusCode = 400, headers = json_headers,
            body = json_dumps L (err missing_prompt)\<rparr>, []) \<or>
      lambda_handler L C W e =
        (Inr \<lparr>statusCode = 400, headers = json_headers,
              body = json_dumps L (err ''Prompt too long (max 800 chars)'')\<rparr>, []) \<or>
      (\<exists>p. p \<noteq> [] \<and> length p \<le> 800 \<and>
           lambda_handler L C W e = generation_invoker L C W p)"
    by (intro handler_after_marker [where m = m]) (simp_all add: parse_event_refines)
qed

text \<open>C9 at an envelope whose body is a number, for which normalization fails, and at
  the direct envelope above, whose own \<open>__parse_error__\<close> field is truthy.\<close>

theorem C9_marker_check_witness:
  "lambda_handler demo_lib demo_config demo_world (JObj [(u ''body'', JInt 5)]) =
     (Inr \<lparr>statusCode = 400, headers = json_headers,
           body = json_dumps demo_lib (err ''Unsupported body format'')\<rparr>, []) \<and>
   lambda_handler demo_lib demo_config demo_world
     (JObj [(u ''__parse_error__'', JStr (u ''boom'')), (u ''prompt'', JStr (u ''a cat''))]) =
     (Inr \<lparr>statusCode = 400, headers = json_headers,
           body = json_dumps demo_lib (JObj [(u ''error'', JStr (u ''boom''))])\<rparr>, [])"
proof -
  have 1: "normalize_spec demo_lib (JObj [(u ''body'', JInt 5)]) = Inl ''Unsupported body format''"
    by (simp add: normalize_spec_def)
  have 2: "normalize_spec demo_lib
     (JObj [(u ''__parse_error__'', JStr (u ''boom'')), (u ''prompt'', JStr (u ''a cat''))]) =
     Inr (JObj [(u ''__parse_error__'', JStr (u ''boom'')), (u ''prompt'', JStr (u ''a cat''))]) \<and>
     map_of [(u ''__parse_error__'', JStr (u ''boom'')), (u ''prompt'', JStr (u ''a cat''))]
       (u ''__parse_error__'') = Some (JStr (u ''boom'')) \<and> truthy (JStr (u ''boom''))"
    by (simp add: normalize_spec_def)
  have a: "lambda_handler demo_lib demo_config demo_world (JObj [(u ''body'', JInt 5)]) =
     (Inr \<lparr>statusCode = 400, headers = json_headers,
           body = json_dumps demo_lib (err ''Unsupported body format'')\<rparr>, [])"
    using C9_marker_check [THEN conjunct1, rule_format, OF 1] .
  have b: "lambda_handler demo_lib demo_config demo_world
     (JObj [(u ''__parse_error__'', JStr (u ''boom'')), (u ''prompt'', JStr (u ''a cat''))]) =
     (Inr \<lparr>statusCode = 400, headers = json_headers,
           body = json_dumps demo_lib (JObj [(u ''error'', JStr (u ''boom''))])\<rparr>, [])"
    using C9_marker_check [THEN conjunct2, THEN conjunct1, rule_format, OF 2] .
  from a b show ?thesis by (rule conjI)
qed

section \<open>The model stage and the publisher\<close>

text \<open>The calls a run can make: the model stage calls the model once, and the publisher
  writes once and then asks for at most one URL, for the key it wrote.\<close>

lemma publisher_calls:
  "snd (artifact_publisher L C W d b t) =
     t @ [PutObject (OUTPUT_BUCKET C) (storage_key C W) b (u ''image/png'')] \<or>
   snd (artifact_publisher L C W d b t) =
     t @ [PutObject (OUTPUT_BUCKET C) (storage_key C W) b (u ''image/png''),
          GeneratePresignedUrl (u ''get_object'') (OUTPUT_BUCKET C) (storage_key C W) 3600]"
  by (simp add: artifact_publisher_def Let_def split: sum.split option.split)


lemma invoker_cases:
  "(\<exists>r. generation_invoker L C W p =
      (r, [InvokeModel (MODEL_ID C) (u ''application/json'') (u ''application/json'')
             (json_dumps L (JObj [(u ''prompt'', JStr p),
                                  (u ''output_format'', JStr (u ''png''))]))])) \<or>
   (\<exists>d img. generation_invoker L C W p =
      artifact_publisher L C W d img
        [InvokeModel (MODEL_ID C) (u ''application/json'') (u ''application/json'')
             (json_dumps L (JObj [(u ''prompt'', JStr p),
                                  (u ''output_format'', JStr (u ''png''))]))])"
  unfolding generation_invoker_def Let_def
  by (simp split: sum.split option.split invoke_result.split) blast

lemma invoker_invoke_call:
  assumes "InvokeModel a b c d \<in> set (snd (generation_invoker L C W p))"
  shows "a = MODEL_ID C \<and> b = u ''application/json'' \<and> c = u ''application/json'' \<and>
         d = json_dumps L (JObj [(u ''prompt'', JStr p),
                                 (u ''output_format'', JStr (u ''png''))])"
proof -
  let ?t = "InvokeModel (MODEL_ID C) (u ''application/json'') (u ''application/json'')
             (json_dumps L (JObj [(u ''prompt'', JStr p),
                                  (u ''output_format'', JStr (u ''png''))]))"
  from invoker_cases [of L C W p]
  have "InvokeModel a b c d = ?t"
  proof (elim disjE exE)
    fix r assume "generation_invoker L C W p = (r, [?t])"
    with assms show ?thesis by simp
  next
    fix dat img assume "generation_invoker L C W p = artifact_publisher L C W dat img [?t]"
    with assms publisher_calls [of L C W dat img "[?t]"] show ?thesis
      by (elim disjE) simp_all
  qed
  then show ?thesis by simp
qed

lemma handler_invoked:
  assumes "InvokeModel a b c d \<in> set (snd (lambda_handler L C W event))"
  obtains p where "lambda_handler L C W event = generation_invoker L C W p"
    and "a = MODEL_ID C" and "b = u ''application/json''" and "c = u ''application/json''"
    and "d = json_dumps L (JObj [(u ''prompt'', JStr p),
                                 (u ''output_format'', JStr (u ''png''))])"
proof -
  from assms have "snd (lambda_handler L C W event) \<noteq> []" by auto
  with handler_cases [of L C W event] obtain p
    where p: "lambda_handler L C W event = generation_invoker L C W p" by auto
  with assms invoker_invoke_call [of a b c d L C W p] that show ?thesis by simp
qed

lemma handler_invokes:
  assumes "parse_event L event = JObj m"
    and "\<not> truthy (case map_of m (u ''__parse_error__'') of Some v \<Rightarrow> v | None \<Rightarrow> JNull)"
    and "map_of m (u ''prompt'') = Some (JStr s)"
    and "strip s \<noteq> []" and "length (strip s) \<le> 800"
  shows "InvokeModel (MODEL_ID C) (u ''application/json'') (u ''application/json'')
           (json_dumps L (JObj [(u ''prompt'', JStr (strip s)),
                                (u ''output_format'', JStr (u ''png''))]))
         \<in> set (snd (lambda_handler L C W event))"
  using handler_valid [OF assms, of C W] invoker_trace [of L C W "strip s"] by auto

text \<open>What the model stage does with a filtered generation, and with a decodable image.\<close>

lemma invoker_filtered:
  assumes "invoke_model W (MODEL_ID C) (u ''application/json'') (u ''application/json'')
             (json_dumps L (JObj [(u ''prompt'', JStr p),
                                  (u ''output_format'', JStr (u ''png''))])) = Body raw"
    and "json_loads_bytes L raw = Some (JObj d)"
    and "map_of d (u ''finish_reasons'') = Some (JArr (r # rs))"
    and "r \<noteq> JNull"
  shows "generation_invoker L C W p =
           (Inr \<lparr>statusCode = 400, headers = json_headers,
                 body = json_dumps L (JObj [(u ''error'', JStr (u ''Filtered/failed'')),
                                   (u ''finish_reasons'', JArr (r # rs))])\<rparr>,
            [InvokeModel (MODEL_ID C) (u ''application/json'') (u ''application/json'')
               (json_dumps L (JObj [(u ''prompt'', JStr p),
                                    (u ''output_format'', JStr (u ''png''))]))])"
  using assms by (simp add: generation_invoker_def)

lemma invoker_publishes:
  assumes "invoke_model W (MODEL_ID C) (u ''application/json'') (u ''application/json'')
             (json_dumps L (JObj [(u ''prompt'', JStr p),
                                  (u ''output_format'', JStr (u ''png''))])) = Body raw"
    and "json_loads_bytes L raw = Some (JObj d)"
    and "(case map_of d (u ''finish_reasons'') of
            None \<Rightarrow> True
          | Some (JArr (r # rs)) \<Rightarrow> r = JNull
          | Some v \<Rightarrow> \<not> truthy v)"
    and "map_of d (u ''images'') = Some (JArr (JStr i # others))"
    and "b64decode L i = Some img"
  shows "generation_invoker L C W p =
           artifact_publisher L C W (JObj d) img
             [InvokeModel (MODEL_ID C) (u ''application/json'') (u ''application/json'')
                (json_dumps L (JObj [(u ''prompt'', JStr p),
                                     (u ''output_format'', JStr (u ''png''))]))]"
proof -
  have "(if truthy (case map_of d (u ''finish_reasons'') of None \<Rightarrow> JArr [] | Some v \<Rightarrow> v)
         then map_sum id (\<lambda>x. x \<noteq> JNull)
                (py_index0 (case map_of d (u ''finish_reasons'') of
                              None \<Rightarrow> JArr [] | Some v \<Rightarrow> v))
         else Inr False) = Inr False"
    using assms(3) by (auto split: option.splits json.splits list.splits)
  with assms(1,2,4,5) show ?thesis
    by (simp add: generation_invoker_def decode_image_def Let_def)
qed


text \<open>The exceptions of the later steps: a model response that parses to a list has no
  \<open>get\<close>, and a \<open>seeds\<close> value that is a non-zero number has no first element. Both leave the
  handler, the second after the image has been written.\<close>

lemma invoker_non_mapping_response:
  assumes "invoke_model W (MODEL_ID C) (u ''application/json'') (u ''application/json'')
             (json_dumps L (JObj [(u ''prompt'', JStr p),
                                  (u ''output_format'', JStr (u ''png''))])) = Body raw"
    and "json_loads_bytes L raw = Some (JArr xs)"
  shows "fst (generation_invoker L C W p) = Inl AttributeError"
  using assms by (simp add: generation_invoker_def)

lemma publisher_seeds_number:
  assumes "put_object W (OUTPUT_BUCKET C) (storage_key C W) img (u ''image/png'')"
    and "generate_presigned_url W (u ''get_object'') (OUTPUT_BUCKET C) (storage_key C W) 3600 =
           Some url"
    and "map_of d (u ''seeds'') = Some (JInt n)" and "n \<noteq> 0"
  shows "artifact_publisher L C W (JObj d) img t =
           (Inl TypeError,
            t @ [PutObject (OUTPUT_BUCKET C) (storage_key C W) img (u ''image/png''),
                 GeneratePresignedUrl (u ''get_object'') (OUTPUT_BUCKET C) (storage_key C W)
                   3600])"
  using assms by (simp add: artifact_publisher_def Let_def)

text \<open>Facts about the concrete inputs used below.\<close>

lemma strip_a_cat: "strip (u ''a cat'') = u ''a cat''"
  by (rule strip_no_space) (simp_all add: u_def isspace_def)

lemma a_cat_invokes:
  "InvokeModel (MODEL_ID C) (u ''application/json'') (u ''application/json'')
     (json_dumps L (JObj [(u ''prompt'', JStr (u ''a cat'')),
                          (u ''output_format'', JStr (u ''png''))]))
   \<in> set (snd (lambda_handler L C W (JObj [(u ''prompt'', JStr (u ''a cat''))])))"
  using handler_invokes [of L "JObj [(u ''prompt'', JStr (u ''a cat''))]"
      "[(u ''prompt'', JStr (u ''a cat''))]" "u ''a cat''" C W]
  by (simp add: strip_a_cat parse_event_def)

lemma replies_differ: "ascii reply_filtered \<noteq> ascii reply_ok"
  by (simp add: ascii_def reply_filtered_def reply_ok_def quoted_def)

lemma reply_seeds_number_differs:
  "ascii reply_seeds_number \<noteq> ascii reply_ok \<and>
   ascii reply_seeds_number \<noteq> ascii reply_filtered"
  by (simp add: ascii_def reply_seeds_number_def reply_filtered_def reply_ok_def quoted_def)

text \<open>
  Claim C7, as stated, fails: the handler calls \<open>base64.b64decode\<close> without validation,
  which discards the characters outside the alphabet instead of rejecting the text. The
  first body below starts with \<open>!\<close>, so it is not valid base64, yet it decodes to the JSON
  text of a request, and the model is invoked. The second body, \<open>....\<close>, holds no base64
  character at all; it decodes to the empty string and is answered with the error
  "Invalid JSON in request body", another body than the one for invalid base64.
\<close>

theorem C7_counterexample:
  "\<not> list_all base64_char (u ''!eyJwcm9tcHQiOiAiYSBjYXQifQ=='') \<and>
   InvokeModel (MODEL_ID demo_config) (u ''application/json'') (u ''application/json'')
     (json_dumps demo_lib (JObj [(u ''prompt'', JStr (u ''a cat'')),
                                 (u ''output_format'', JStr (u ''png''))]))
     \<in> set (snd (lambda_handler demo_lib demo_config demo_world
                   (JObj [(u ''body'', JStr (u ''!eyJwcm9tcHQiOiAiYSBjYXQifQ=='')),
                          (u ''isBase64Encoded'', JBool True)]))) \<and>
   \<not> list_all base64_char (u ''....'') \<and>
   lambda_handler demo_lib demo_config demo_world
     (JObj [(u ''body'', JStr (u ''....'')), (u ''isBase64Encoded'', JBool True)]) =
     (Inr \<lparr>statusCode = 400, headers = json_headers,
            body = json_dumps demo_lib (err ''Invalid JSON in request body'')\<rparr>, []) \<and>
   json_dumps demo_lib (err ''Invalid JSON in request body'') \<noteq>
     json_dumps demo_lib (err ''Invalid base64-encoded body'')"
proof -
  have ne: "request_text \<noteq> ''{}''" "request_text \<noteq> ''[1]''"
    "ascii request_text \<noteq> ascii ''{}''"
    by (simp_all add: request_text_def quoted_def ascii_def)
  then have "parse_event demo_lib
      (JObj [(u ''body'', JStr (u ''!eyJwcm9tcHQiOiAiYSBjYXQifQ=='')),
             (u ''isBase64Encoded'', JBool True)]) =
      JObj [(u ''prompt'', JStr (u ''a cat''))]"
    by (simp add: parse_event_def demo_lib_def)
  then have 1: "InvokeModel (MODEL_ID demo_config) (u ''application/json'')
      (u ''application/json'')
      (json_dumps demo_lib (JObj [(u ''prompt'', JStr (u ''a cat'')),
                                  (u ''output_format'', JStr (u ''png''))]))
      \<in> set (snd (lambda_handler demo_lib demo_config demo_world
                    (JObj [(u ''body'', JStr (u ''!eyJwcm9tcHQiOiAiYSBjYXQifQ=='')),
                           (u ''isBase64Encoded'', JBool True)])))"
    using handler_invokes [of demo_lib
        "JObj [(u ''body'', JStr (u ''!eyJwcm9tcHQiOiAiYSBjYXQifQ=='')),
               (u ''isBase64Encoded'', JBool True)]"
        "[(u ''prompt'', JStr (u ''a cat''))]" "u ''a cat''" demo_config demo_world]
    by (simp add: strip_a_cat del: demo_dumps.simps)
  have "utf8_decode demo_lib [] = Some []" "json_loads demo_lib [] = None"
    by (simp_all add: demo_lib_def ascii_def u_def request_text_def)
  then have "parse_event demo_lib
      (JObj [(u ''body'', JStr (u ''....'')), (u ''isBase64Encoded'', JBool True)]) =
      parse_error ''Invalid JSON in request body''"
    by (simp add: parse_event_def) (simp add: demo_lib_def)
  then have 2: "lambda_handler demo_lib demo_config demo_world
      (JObj [(u ''body'', JStr (u ''....'')), (u ''isBase64Encoded'', JBool True)]) =
      (Inr \<lparr>statusCode = 400, headers = json_headers,
             body = json_dumps demo_lib (err ''Invalid JSON in request body'')\<rparr>, [])"
    by (simp add: handler_marker parse_error_def err_def del: demo_dumps.simps)
  have 3: "json_dumps demo_lib (err ''Invalid JSON in request body'') \<noteq>
      json_dumps demo_lib (err ''Invalid base64-encoded body'')"
    by (simp add: demo_lib_def err_def dumps_str_def u_def)
  have 4: "\<not> list_all base64_char (u ''!eyJwcm9tcHQiOiAiYSBjYXQifQ=='')"
    "\<not> list_all base64_char (u ''....'')"
    by (simp_all add: u_def base64_char_def)
  from 1 2 3 4 show ?thesis by blast
qed

text \<open>
  Claim C7, amended. An envelope with a truthy \<open>isBase64Encoded\<close> flag and a string \<open>body\<close>
  on which the decoder raises (\<open>base64.b64decode\<close> without validation, which raises on
  wrong padding or length but not on characters outside the alphabet), or whose decoded
  bytes are not valid UTF-8, is answered with status 400 and the error
  "Invalid base64-encoded body"; no service is called, so the model is not invoked.
\<close>

theorem C7_invalid_base64:
  assumes "map_of ev (u ''body'') = Some (JStr s)"
    and "map_of ev (u ''isBase64Encoded'') = Some flag"
    and "truthy flag"
    and "Option.bind (b64decode L s) (utf8_decode L) = None"
  shows "lambda_handler L C W (JObj ev) =
           (Inr \<lparr>statusCode = 400, headers = json_headers,
                  body = json_dumps L (err ''Invalid base64-encoded body'')\<rparr>, [])"
proof -
  have "parse_event L (JObj ev) = parse_error ''Invalid base64-encoded body''"
    using assms by (cases "b64decode L s") (simp_all add: parse_event_def)
  then show ?thesis
    by (simp add: handler_marker parse_error_def err_def)
qed

text \<open>C7 at the body \<open>abc\<close>, on which the decoder raises (its padding is missing).\<close>

theorem C7_invalid_base64_witness:
  "lambda_handler demo_lib demo_config demo_world
     (JObj [(u ''body'', JStr (u ''abc'')), (u ''isBase64Encoded'', JBool True)]) =
   (Inr \<lparr>statusCode = 400, headers = json_headers,
          body = json_dumps demo_lib (err ''Invalid base64-encoded body'')\<rparr>, [])"
  by (rule C7_invalid_base64 [where s = "u ''abc''" and flag = "JBool True"])
     (simp_all add: demo_lib_def)

text \<open>
  Claim C6. Whenever a run invokes the model and the response of that call parses to a
  mapping whose \<open>finish_reasons\<close> is a non-empty list with a first entry other than \<open>null\<close>,
  the handler returns status 400 with the error "Filtered/failed" and that list as
  \<open>finish_reasons\<close> in the body, and the run makes no storage write.
\<close>

theorem C6_filtered_generation:
  assumes "InvokeModel model_id content_type accept request
             \<in> set (snd (lambda_handler L C W event))"
    and "invoke_model W model_id content_type accept request = Body raw"
    and "json_loads_bytes L raw = Some (JObj d)"
    and "map_of d (u ''finish_reasons'') = Some (JArr (r # rs))"
    and "r \<noteq> JNull"
  shows "fst (lambda_handler L C W event) =
           Inr \<lparr>statusCode = 400, headers = json_headers,
                 body = json_dumps L (JObj [(u ''error'', JStr (u ''Filtered/failed'')),
                                  (u ''finish_reasons'', JArr (r # rs))])\<rparr> \<and>
         (\<forall>bucket key blob ctype.
            PutObject bucket key blob ctype \<notin> set (snd (lambda_handler L C W event)))"
proof -
  from assms(1) obtain p where
    "lambda_handler L C W event = generation_invoker L C W p"
    "model_id = MODEL_ID C" "content_type = u ''application/json''"
    "accept = u ''application/json''"
    "request = json_dumps L (JObj [(u ''prompt'', JStr p),
                                   (u ''output_format'', JStr (u ''png''))])"
    by (rule handler_invoked)
  with assms(2-5) show ?thesis
    by (simp add: invoker_filtered)
qed

text \<open>C6 in a world whose model answers with the finish reason \<open>CONTENT_FILTERED\<close>.\<close>

theorem C6_filtered_generation_witness:
  "fst (lambda_handler demo_lib demo_config
          (demo_world\<lparr>invoke_model := \<lambda>model_id content_type accept request.
                                         Body (ascii reply_filtered)\<rparr>)
          (JObj [(u ''prompt'', JStr (u ''a cat''))])) =
     Inr \<lparr>statusCode = 400, headers = json_headers,
           body = json_dumps demo_lib (JObj [(u ''error'', JStr (u ''Filtered/failed'')),
                   (u ''finish_reasons'', JArr [JStr (u ''CONTENT_FILTERED'')])])\<rparr> \<and>
   (\<forall>bucket key blob ctype.
      PutObject bucket key blob ctype \<notin>
        set (snd (lambda_handler demo_lib demo_config
                    (demo_world\<lparr>invoke_model := \<lambda>model_id content_type accept request.
                                                   Body (ascii reply_filtered)\<rparr>)
                    (JObj [(u ''prompt'', JStr (u ''a cat''))]))))"
  by (rule C6_filtered_generation [OF a_cat_invokes,
        where raw = "ascii reply_filtered"
          and d = "[(u ''finish_reasons'', JArr [JStr (u ''CONTENT_FILTERED'')])]"
          and r = "JStr (u ''CONTENT_FILTERED'')" and rs = "[]"])
     (simp_all add: demo_lib_def replies_differ)



section \<open>The successful run\<close>

lemma publisher_success:
  assumes "put_object W (OUTPUT_BUCKET C) (storage_key C W) img (u ''image/png'')"
    and "generate_presigned_url W (u ''get_object'') (OUTPUT_BUCKET C) (storage_key C W) 3600 =
           Some url"
    and "(case map_of d (u ''seeds'') of
            None \<Rightarrow> True
          | Some (JArr xs) \<Rightarrow> True
          | Some v \<Rightarrow> \<not> truthy v)"
  shows "artifact_publisher L C W (JObj d) img t =
           (Inr \<lparr>statusCode = 200, headers = json_headers,
                 body = json_dumps L (JObj [(u ''bucket'', JStr (OUTPUT_BUCKET C)),
                          (u ''key'', JStr (storage_key C W)),
                          (u ''url'', JStr url),
                          (u ''seed'', (case map_of d (u ''seeds'') of
                                          Some (JArr (x # xs)) \<Rightarrow> x
                                        | _ \<Rightarrow> JNull)),
                          (u ''modelId'', JStr (MODEL_ID C))])\<rparr>,
            t @ [PutObject (OUTPUT_BUCKET C) (storage_key C W) img (u ''image/png''),
                 GeneratePresignedUrl (u ''get_object'') (OUTPUT_BUCKET C) (storage_key C W)
                   3600])"
proof -
  let ?sd = "case map_of d (u ''seeds'') of None \<Rightarrow> JNull | Some v \<Rightarrow> v"
  have "py_index0 (if truthy ?sd then ?sd else JArr [JNull]) =
          Inr (case map_of d (u ''seeds'') of Some (JArr (x # xs)) \<Rightarrow> x | _ \<Rightarrow> JNull)"
    using assms(3) by (auto split: option.splits json.splits list.splits)
  with assms(1,2) show ?thesis
    by (simp add: artifact_publisher_def Let_def)
qed

lemma demo_key:
  "storage_key demo_config demo_world = u ''sd35/poster_20240102030405_1b9d6bcdbb.png''"
  by code_simp

text \<open>
  The successful run. Take a run that invokes the model, in which the response of that
  call parses to a mapping whose finish reason is absent, falsy or a list starting with
  \<open>null\<close>, whose first image is a string that decodes, the storage write of the decoded
  bytes under the computed key succeeds, and the presign call for that key with an
  expiry of 3600 seconds succeeds; let \<open>seeds\<close> be absent, falsy or a list, and let the clock
  show a year of four digits. Then the handler returns status 200 with a body holding
  the configured bucket, the key, the URL the presign call returned, the first element of
  \<open>seeds\<close> (\<open>null\<close> when \<open>seeds\<close> is absent or empty) and the configured model identifier. The
  key is the configured prefix, \<open>poster_\<close>, a timestamp of 14 decimal digits, an
  underscore, 10 lower-case hexadecimal digits, and \<open>.png\<close>.
\<close>

lemma successful_run:
  assumes "InvokeModel model_id content_type accept request
             \<in> set (snd (lambda_handler L C W event))"
    and "invoke_model W model_id content_type accept request = Body raw"
    and "json_loads_bytes L raw = Some (JObj d)"
    and "(case map_of d (u ''finish_reasons'') of
            None \<Rightarrow> True
          | Some (JArr (r # rs)) \<Rightarrow> r = JNull
          | Some v \<Rightarrow> \<not> truthy v)"
    and "map_of d (u ''images'') = Some (JArr (JStr i # others))"
    and "b64decode L i = Some img"
    and "put_object W (OUTPUT_BUCKET C) (storage_key C W) img (u ''image/png'')"
    and "generate_presigned_url W (u ''get_object'') (OUTPUT_BUCKET C) (storage_key C W) 3600 =
           Some url"
    and "(case map_of d (u ''seeds'') of
            None \<Rightarrow> True
          | Some (JArr xs) \<Rightarrow> True
          | Some v \<Rightarrow> \<not> truthy v)"
    and "four_digit_datetime (utcnow W)"
  shows "fst (lambda_handler L C W event) =
           Inr \<lparr>statusCode = 200, headers = json_headers,
                body = json_dumps L
                  (JObj [(u ''bucket'', JStr (OUTPUT_BUCKET C)),
                         (u ''key'', JStr (KEY_PREFIX C @ u ''poster_'' @
                                           strftime (utcnow W) @ u ''_'' @
                                           take 10 (hex (uuid4 W)) @ u ''.png'')),
                         (u ''url'', JStr url),
                         (u ''seed'', (case map_of d (u ''seeds'') of
                                         Some (JArr (x # xs)) \<Rightarrow> x
                                       | _ \<Rightarrow> JNull)),
                         (u ''modelId'', JStr (MODEL_ID C))])\<rparr> \<and>
         length (strftime (utcnow W)) = 14 \<and> list_all is_digit (strftime (utcnow W)) \<and>
         length (take 10 (hex (uuid4 W))) = 10 \<and> list_all is_hex (take 10 (hex (uuid4 W)))"
proof -
  from assms(1) obtain p where p:
    "lambda_handler L C W event = generation_invoker L C W p"
    "model_id = MODEL_ID C" "content_type = u ''application/json''"
    "accept = u ''application/json''"
    "request = json_dumps L (JObj [(u ''prompt'', JStr p),
                                   (u ''output_format'', JStr (u ''png''))])"
    by (rule handler_invoked)
  let ?t = "InvokeModel (MODEL_ID C) (u ''application/json'') (u ''application/json'')
              (json_dumps L (JObj [(u ''prompt'', JStr p),
                                   (u ''output_format'', JStr (u ''png''))]))"
  have "generation_invoker L C W p = artifact_publisher L C W (JObj d) img [?t]"
    using assms(2-6) p(2-5) by (intro invoker_publishes [where raw = raw]) simp_all
  with p(1) have "fst (lambda_handler L C W event) =
      fst (artifact_publisher L C W (JObj d) img [?t])"
    by simp
  also have "\<dots> = Inr \<lparr>statusCode = 200, headers = json_headers,
                body = json_dumps L
                  (JObj [(u ''bucket'', JStr (OUTPUT_BUCKET C)),
                         (u ''key'', JStr (storage_key C W)),
                         (u ''url'', JStr url),
                         (u ''seed'', (case map_of d (u ''seeds'') of
                                         Some (JArr (x # xs)) \<Rightarrow> x
                                       | _ \<Rightarrow> JNull)),
                         (u ''modelId'', JStr (MODEL_ID C))])\<rparr>"
    using publisher_success [OF assms(7,8,9), of L "[?t]"] by simp
  finally have run: "fst (lambda_handler L C W event) =
      Inr \<lparr>statusCode = 200, headers = json_headers,
           body = json_dumps L
             (JObj [(u ''bucket'', JStr (OUTPUT_BUCKET C)),
                    (u ''key'', JStr (storage_key C W)),
                    (u ''url'', JStr url),
                    (u ''seed'', (case map_of d (u ''seeds'') of
                                    Some (JArr (x # xs)) \<Rightarrow> x
                                  | _ \<Rightarrow> JNull)),
                    (u ''modelId'', JStr (MODEL_ID C))])\<rparr>" .
  have "length (strftime (utcnow W)) = 14"
    using assms(10) by (rule length_strftime)
  with run rid_format [of "uuid4 W"] strftime_digits [of "utcnow W"]
  show ?thesis
    by (simp add: storage_key_def)
qed

text \<open>The successful run in the world where every call succeeds, on 2 January 2024 at
  03:04:05.\<close>

lemma successful_run_example:
  "fst (lambda_handler demo_lib demo_config demo_world
          (JObj [(u ''prompt'', JStr (u ''a cat''))])) =
     Inr \<lparr>statusCode = 200, headers = json_headers,
          body = json_dumps demo_lib
            (JObj [(u ''bucket'', JStr (u ''posters'')),
                   (u ''key'', JStr (u ''sd35/poster_20240102030405_1b9d6bcdbb.png'')),
                   (u ''url'', JStr (u ''https://s3.example/posters/sd35/poster_20240102030405_1b9d6bcdbb.png'')),
                   (u ''seed'', JInt 7),
                   (u ''modelId'', JStr (u ''stability.sd3-5-large-v1:0''))])\<rparr>"
proof -
  let ?d = "[(u ''images'', JArr [JStr (u ''QUJD'')]), (u ''seeds'', JArr [JInt 7])]"
  have "fst (lambda_handler demo_lib demo_config demo_world
          (JObj [(u ''prompt'', JStr (u ''a cat''))])) =
     Inr \<lparr>statusCode = 200, headers = json_headers,
          body = json_dumps demo_lib
            (JObj [(u ''bucket'', JStr (OUTPUT_BUCKET demo_config)),
                   (u ''key'', JStr (KEY_PREFIX demo_config @ u ''poster_'' @
                                     strftime (utcnow demo_world) @ u ''_'' @
                                     take 10 (hex (uuid4 demo_world)) @ u ''.png'')),
                   (u ''url'', JStr (u ''https://s3.example/'' @ OUTPUT_BUCKET demo_config @
                                     u ''/'' @ storage_key demo_config demo_world)),
                   (u ''seed'', (case map_of ?d (u ''seeds'') of
                                   Some (JArr (x # xs)) \<Rightarrow> x
                                 | _ \<Rightarrow> JNull)),
                   (u ''modelId'', JStr (MODEL_ID demo_config))])\<rparr>"
    by (rule successful_run [where raw = "ascii reply_ok" and i = "u ''QUJD''"
            and others = "[]" and img = "ascii ''ABC''", OF a_cat_invokes, THEN conjunct1])
       (simp_all add: demo_lib_def demo_world_def four_digit_datetime_def)
  moreover have "KEY_PREFIX demo_config @ u ''poster_'' @ strftime (utcnow demo_world) @
      u ''_'' @ take 10 (hex (uuid4 demo_world)) @ u ''.png'' =
      u ''sd35/poster_20240102030405_1b9d6bcdbb.png''"
    using demo_key by (simp add: storage_key_def)
  ultimately show ?thesis
    by (simp add: demo_key del: demo_dumps.simps) (simp add: demo_config_def u_def)
qed

text \<open>
  Claim C2 fails on the code. In a run in which the prompt is valid, the model returns
  an image without a finish reason, the storage write succeeds and the presign call
  succeeds, the handler still has to read the seed, and \<open>(data.get("seeds") or [None])[0]\<close>
  raises \<open>TypeError\<close> when \<open>seeds\<close> is a number other than zero: the exception leaves the
  handler after the image has been written and the URL presigned, and no response is
  returned.
\<close>

theorem C2_seeds_number_raises:
  assumes "InvokeModel model_id content_type accept request
             \<in> set (snd (lambda_handler L C W event))"
    and "invoke_model W model_id content_type accept request = Body raw"
    and "json_loads_bytes L raw = Some (JObj d)"
    and "(case map_of d (u ''finish_reasons'') of
            None \<Rightarrow> True
          | Some (JArr (r # rs)) \<Rightarrow> r = JNull
          | Some v \<Rightarrow> \<not> truthy v)"
    and "map_of d (u ''images'') = Some (JArr (JStr i # others))"
    and "b64decode L i = Some img"
    and "put_object W (OUTPUT_BUCKET C) (storage_key C W) img (u ''image/png'')"
    and "generate_presigned_url W (u ''get_object'') (OUTPUT_BUCKET C) (storage_key C W) 3600 =
           Some url"
    and "map_of d (u ''seeds'') = Some (JInt n)" and "n \<noteq> 0"
  shows "lambda_handler L C W event =
           (Inl TypeError,
            [InvokeModel model_id content_type accept request,
             PutObject (OUTPUT_BUCKET C) (storage_key C W) img (u ''image/png''),
             GeneratePresignedUrl (u ''get_object'') (OUTPUT_BUCKET C) (storage_key C W)
               3600])"
proof -
  from assms(1) obtain p where p:
    "lambda_handler L C W event = generation_invoker L C W p"
    "model_id = MODEL_ID C" "content_type = u ''application/json''"
    "accept = u ''application/json''"
    "request = json_dumps L (JObj [(u ''prompt'', JStr p),
                                   (u ''output_format'', JStr (u ''png''))])"
    by (rule handler_invoked)
  let ?t = "InvokeModel (MODEL_ID C) (u ''application/json'') (u ''application/json'')
              (json_dumps L (JObj [(u ''prompt'', JStr p),
                                   (u ''output_format'', JStr (u ''png''))]))"
  have "generation_invoker L C W p = artifact_publisher L C W (JObj d) img [?t]"
    using assms(2-6) p(2-5) by (intro invoker_publishes [where raw = raw]) simp_all
  with p show ?thesis
    using publisher_seeds_number [OF assms(7-10), of L "[?t]"] by simp
qed

text \<open>C2 in a world whose model answers with an image and the seeds value \<open>7\<close>.\<close>

theorem C2_seeds_number_raises_witness:
  "lambda_handler demo_lib demo_config
     (demo_world\<lparr>invoke_model := \<lambda>model_id content_type accept request.
                                    Body (ascii reply_seeds_number)\<rparr>)
     (JObj [(u ''prompt'', JStr (u ''a cat''))]) =
   (Inl TypeError,
    [InvokeModel (MODEL_ID demo_config) (u ''application/json'') (u ''application/json'')
       (json_dumps demo_lib (JObj [(u ''prompt'', JStr (u ''a cat'')),
                                   (u ''output_format'', JStr (u ''png''))])),
     PutObject (OUTPUT_BUCKET demo_config)
       (storage_key demo_config
          (demo_world\<lparr>invoke_model := \<lambda>model_id content_type accept request.
                                         Body (ascii reply_seeds_number)\<rparr>))
       (ascii ''ABC'') (u ''image/png''),
     GeneratePresignedUrl (u ''get_object'') (OUTPUT_BUCKET demo_config)
       (storage_key demo_config
          (demo_world\<lparr>invoke_model := \<lambda>model_id content_type accept request.
                                         Body (ascii reply_seeds_number)\<rparr>))
       3600])"
  by (rule C2_seeds_number_raises [OF a_cat_invokes,
        where raw = "ascii reply_seeds_number"
          and d = "[(u ''images'', JArr [JStr (u ''QUJD'')]), (u ''seeds'', JInt 7)]"
          and i = "u ''QUJD''" and others = "[]" and n = 7])
     (simp_all add: demo_lib_def demo_world_def reply_seeds_number_differs)

end
